theory Spec2Isabelle
  imports Main "HOL-Library.Sublist" "HOL-Library.Word"
begin

section \<open>Go values used by the notifier\<close>

text \<open>
  A \<open>time.Time\<close> is a point on one clock line, in nanoseconds since the Unix epoch: all
  the times the limiters compare are readings of \<open>time.Now()\<close> of one process, which Go
  compares by their monotonic readings. A \<open>time.Duration\<close> is an \<open>int64\<close> count of
  nanoseconds. Go's \<open>int\<close> is modelled by \<open>int\<close>: the constructors never overflow on it
  (a constant is divided by a value greater than 1).
\<close>

type_synonym Time = int
type_synonym Duration = int

definition Second :: Duration where
  "Second = 1000000000"

definition Minute :: Duration where
  "Minute = 60 * Second"

definition maxDuration :: Duration where
  "maxDuration = 2 ^ 63 - 1"

definition minDuration :: Duration where
  "minDuration = - (2 ^ 63)"

text \<open>The zero \<open>time.Time\<close>: January 1 of year 1, 62135596800 seconds before the Unix epoch.\<close>

definition zeroTime :: Time where
  "zeroTime = - 62135596800 * Second"

text \<open>Arithmetic on \<open>int64\<close> wraps around.\<close>

definition wrap64 :: "int \<Rightarrow> int" where
  "wrap64 x = (x + 2 ^ 63) mod 2 ^ 64 - 2 ^ 63"

text \<open>\<open>t.Sub(u)\<close>: the difference, held at the largest or smallest Duration when it does not fit.\<close>

definition time_Sub :: "Time \<Rightarrow> Time \<Rightarrow> Duration" where
  "time_Sub t u =
     (let d = t - u
      in if maxDuration < d then maxDuration
         else if d < minDuration then minDuration
         else d)"

definition time_Add :: "Time \<Rightarrow> Duration \<Rightarrow> Time" where
  "time_Add t d = t + d"

definition time_Before :: "Time \<Rightarrow> Time \<Rightarrow> bool" where
  "time_Before t u \<longleftrightarrow> t < u"

text \<open>Go's integer division truncates towards zero and panics on a zero divisor.\<close>

datatype panic = DivideByZero

definition go_quo :: "int \<Rightarrow> int \<Rightarrow> panic + int" where
  "go_quo a b =
     (if b = 0 then Inl DivideByZero
      else Inr (wrap64 (sgn a * sgn b * (\<bar>a\<bar> div \<bar>b\<bar>))))"

section \<open>The rate limiters (notifications.go)\<close>

record domainRateLimit =
  lastNotified :: "string \<rightharpoonup> Time"
  interval :: Duration

record globalRateLimit =
  lastSent :: Time
  intervalG :: Duration

definition newDomainRateLimit :: "int \<Rightarrow> panic + domainRateLimit" where
  "newDomainRateLimit perFiveMinutes =
     (if 1 < perFiveMinutes then
        (case go_quo (5 * Minute) perFiveMinutes of
           Inl p \<Rightarrow> Inl p
         | Inr i \<Rightarrow> Inr \<lparr>lastNotified = Map.empty, interval = i\<rparr>)
      else Inr \<lparr>lastNotified = Map.empty, interval = 5 * Minute\<rparr>)"

definition newGlobalRateLimit :: "int \<Rightarrow> panic + globalRateLimit" where
  "newGlobalRateLimit perMinute =
     (if 1 < perMinute then
        (case go_quo Minute perMinute of
           Inl p \<Rightarrow> Inl p
         | Inr i \<Rightarrow> Inr \<lparr>lastSent = zeroTime, intervalG = i\<rparr>)
      else Inr \<lparr>lastSent = zeroTime, intervalG = Minute\<rparr>)"

text \<open>
  \<open>shouldNotify\<close> of the domain limiter. \<open>now\<close> is the reading of \<open>time.Now()\<close> the call
  takes; the result is the answer and the limiter after the call.
\<close>

definition domain_shouldNotify ::
  "domainRateLimit \<Rightarrow> Time \<Rightarrow> string \<Rightarrow> bool \<times> domainRateLimit" where
  "domain_shouldNotify r now domain =
     (case lastNotified r domain of
        Some t \<Rightarrow>
          if time_Sub now t < interval r then (False, r)
          else (True, r\<lparr>lastNotified := (lastNotified r)(domain \<mapsto> now)\<rparr>)
      | None \<Rightarrow> (True, r\<lparr>lastNotified := (lastNotified r)(domain \<mapsto> now)\<rparr>))"

definition global_shouldNotify :: "globalRateLimit \<Rightarrow> Time \<Rightarrow> bool \<times> globalRateLimit" where
  "global_shouldNotify r now =
     (if time_Sub now (lastSent r) < intervalG r then (False, r)
      else (True, r\<lparr>lastSent := now\<rparr>))"

text \<open>
  \<open>cleanup\<close>: the loop over the map visits every key once, in an order Go does not fix;
  \<open>ks\<close> is the order of one run. The body deletes the key it is at when its time is
  before the cutoff.
\<close>

definition cleanup_step :: "Time \<Rightarrow> string \<Rightarrow> (string \<rightharpoonup> Time) \<Rightarrow> (string \<rightharpoonup> Time)" where
  "cleanup_step cutoff domain m =
     (case m domain of
        Some t \<Rightarrow> if time_Before t cutoff then m(domain := None) else m
      | None \<Rightarrow> m)"

definition cleanup :: "domainRateLimit \<Rightarrow> Time \<Rightarrow> string list \<Rightarrow> domainRateLimit" where
  "cleanup r now ks =
     (let cutoff = time_Add now (wrap64 (wrap64 (- interval r) * 2))
      in r\<lparr>lastNotified := fold (cleanup_step cutoff) ks (lastNotified r)\<rparr>)"

section \<open>The Pushover notifier (notifications.go)\<close>

text \<open>
  Modelled from the spec: the type \<open>filtering.Reason\<close> is declared outside these sources.
  The spec names four reason categories that select a title (blocklist match, allowlist
  match and the two rewrite variants) and "any other category"; the four constants
  \<open>formatTitle\<close> names are constructors and every other value of the type is
  \<open>OtherReason\<close>.
\<close>

datatype Reason =
  FilteredBlockList | NotFilteredAllowList | Rewritten | RewrittenRule | OtherReason nat

record PushoverConfig =
  AppToken :: string
  UserKey :: string
  Sound :: string
  RateLimitPer5Min :: int
  GlobalRateLimitPerMin :: int
  Priority :: int

record PushoverNotifier =
  domainRateLimit :: domainRateLimit
  globalRateLimit :: globalRateLimit
  config :: PushoverConfig

record NotificationEvent =
  Domain :: string
  RuleText :: string
  ClientIP :: string
  ClientID :: string
  Reason :: Reason
  Timestamp :: Time

definition NewPushoverNotifier :: "PushoverConfig \<Rightarrow> panic + PushoverNotifier" where
  "NewPushoverNotifier cfg =
     (case newDomainRateLimit (RateLimitPer5Min cfg) of
        Inl p \<Rightarrow> Inl p
      | Inr d \<Rightarrow>
          (case newGlobalRateLimit (GlobalRateLimitPerMin cfg) of
             Inl p \<Rightarrow> Inl p
           | Inr g \<Rightarrow> Inr \<lparr>domainRateLimit = d, globalRateLimit = g, config = cfg\<rparr>))"

text \<open>
  \<open>ShouldNotify\<close>: \<open>now_g\<close> is the clock reading the global limiter takes and \<open>now_d\<close>
  the one the domain limiter takes, when it is called. The result is the pair the
  method returns and the notifier after the call.
\<close>

definition ShouldNotify ::
  "PushoverNotifier \<Rightarrow> Time \<Rightarrow> Time \<Rightarrow> string \<Rightarrow> (bool \<times> string) \<times> PushoverNotifier" where
  "ShouldNotify n now_g now_d domain =
     (let (ok_g, g) = global_shouldNotify (globalRateLimit n) now_g;
          n1 = n\<lparr>globalRateLimit := g\<rparr>
      in if \<not> ok_g then ((False, ''global''), n1)
         else
           (let (ok_d, d) = domain_shouldNotify (domainRateLimit n1) now_d domain;
                n2 = n1\<lparr>domainRateLimit := d\<rparr>
            in if \<not> ok_d then ((False, ''domain''), n2)
               else ((True, []), n2)))"

text \<open>
  A run of calls of \<open>ShouldNotify\<close>, one after the other on the same notifier, each with
  its two clock readings and its domain; the answers are collected in order.
\<close>

fun ShouldNotify_run ::
  "PushoverNotifier \<Rightarrow> (Time \<times> Time \<times> string) list \<Rightarrow> (bool \<times> string) list \<times> PushoverNotifier" where
  "ShouldNotify_run n [] = ([], n)"
| "ShouldNotify_run n ((now_g, now_d, domain) # calls) =
     (let (res, n1) = ShouldNotify n now_g now_d domain;
          (ress, n2) = ShouldNotify_run n1 calls
      in (res # ress, n2))"

definition Cleanup :: "PushoverNotifier \<Rightarrow> Time \<Rightarrow> string list \<Rightarrow> PushoverNotifier" where
  "Cleanup n now ks = n\<lparr>domainRateLimit := cleanup (domainRateLimit n) now ks\<rparr>"

definition formatTitle :: "Reason \<Rightarrow> string" where
  "formatTitle reason =
     (case reason of
        FilteredBlockList \<Rightarrow> ''AdGuard: Domain Blocked''
      | NotFilteredAllowList \<Rightarrow> ''AdGuard: Domain Allowed''
      | Rewritten \<Rightarrow> ''AdGuard: Domain Rewritten''
      | RewrittenRule \<Rightarrow> ''AdGuard: Domain Rewritten''
      | OtherReason _ \<Rightarrow> ''AdGuard: Custom Rule Match'')"

text \<open>
  \<open>formatMessage\<close>: \<open>rfc3339\<close> is \<open>Time.Format(time.RFC3339)\<close> of the standard library,
  which renders a time in the zone it carries.
\<close>

definition formatMessage :: "(Time \<Rightarrow> string) \<Rightarrow> NotificationEvent \<Rightarrow> string" where
  "formatMessage rfc3339 event =
     (let clientInfo =
            (if ClientID event \<noteq> [] then ClientID event @ '' ('' @ ClientIP event @ '')''
             else ClientIP event)
      in ''Domain: '' @ Domain event @ [CHR 0x0A] @
         ''Client: '' @ clientInfo @ [CHR 0x0A] @
         ''Time: '' @ rfc3339 (Timestamp event))"

text \<open>\<open>fmt.Sprintf("%d", n)\<close>: the decimal digits of an integer, with a minus sign below zero.\<close>

function show_nat :: "nat \<Rightarrow> string" where
  "show_nat n =
     (if n < 10 then [''0123456789'' ! n]
      else show_nat (n div 10) @ [''0123456789'' ! (n mod 10)])"
  by pat_completeness auto
termination
  by (relation "measure id") auto

declare show_nat.simps [simp del]

definition show_int :: "int \<Rightarrow> string" where
  "show_int i = (if i < 0 then ''-'' @ show_nat (nat (- i)) else show_nat (nat i))"

text \<open>
  \<open>url.Values\<close> maps a field name to its values. The body of the request is
  \<open>data.Encode()\<close>, the form encoding of these fields; the model keeps the fields.
\<close>

type_synonym Values = "string \<rightharpoonup> string list"

definition Values_Set :: "Values \<Rightarrow> string \<Rightarrow> string \<Rightarrow> Values" where
  "Values_Set v key val = v(key \<mapsto> [val])"

record 'c Request =
  Context :: 'c
  Method :: string
  URL :: string
  Body :: Values
  Header :: "string \<rightharpoonup> string"

record Response =
  StatusCode :: int

definition pushoverAPIURL :: string where
  "pushoverAPIURL = ''https://api.pushover.net/1/messages.json''"

text \<open>
  \<open>http.NewRequestWithContext\<close> with a valid method and a URL that parses: it fails on a
  nil context only (\<open>None\<close> here).
\<close>

definition NewRequestWithContext ::
  "'c option \<Rightarrow> string \<Rightarrow> string \<Rightarrow> Values \<Rightarrow> string + 'c Request" where
  "NewRequestWithContext ctx m u b =
     (case ctx of
        None \<Rightarrow> Inl ''net/http: nil Context''
      | Some c \<Rightarrow> Inr \<lparr>Context = c, Method = m, URL = u, Body = b, Header = Map.empty\<rparr>)"

datatype send_error =
  CreatingRequest string | SendingRequest string | ReturnedStatus int

definition send_data :: "PushoverConfig \<Rightarrow> string \<Rightarrow> string \<Rightarrow> Values" where
  "send_data cfg title message =
     (let data0 = [''token'' \<mapsto> [AppToken cfg], ''user'' \<mapsto> [UserKey cfg],
                   ''title'' \<mapsto> [title], ''message'' \<mapsto> [message]];
          data1 = (if Priority cfg \<noteq> 0
                   then Values_Set data0 ''priority'' (show_int (Priority cfg))
                   else data0);
          data2 = (if Sound cfg \<noteq> [] then Values_Set data1 ''sound'' (Sound cfg) else data1)
      in data2)"

text \<open>
  \<open>send\<close>: \<open>client_Do\<close> is the HTTP client (the network and the Pushover service): it
  answers a request with a transport error or with a response. The result is the error
  \<open>send\<close> returns, \<open>None\<close> for nil.
\<close>

definition send ::
  "PushoverNotifier \<Rightarrow> (Time \<Rightarrow> string) \<Rightarrow> ('c Request \<Rightarrow> string + Response) \<Rightarrow>
   'c option \<Rightarrow> NotificationEvent \<Rightarrow> send_error option" where
  "send n rfc3339 client_Do ctx event =
     (let title = formatTitle (Reason event);
          message = formatMessage rfc3339 event;
          data = send_data (config n) title message
      in case NewRequestWithContext ctx ''POST'' pushoverAPIURL data of
           Inl err \<Rightarrow> Some (CreatingRequest err)
         | Inr req0 \<Rightarrow>
             (let req = req0\<lparr>Header := (Header req0)
                          (''Content-Type'' \<mapsto> ''application/x-www-form-urlencoded'')\<rparr>
              in case client_Do req of
                   Inl err \<Rightarrow> Some (SendingRequest err)
                 | Inr resp \<Rightarrow>
                     if StatusCode resp \<noteq> 200 then Some (ReturnedStatus (StatusCode resp))
                     else None))"

text \<open>
  The request \<open>send\<close> hands to the client when the context is \<open>c\<close>: the value of \<open>req\<close>
  at the call of \<open>Do\<close>.
\<close>

definition send_request ::
  "PushoverNotifier \<Rightarrow> (Time \<Rightarrow> string) \<Rightarrow> 'c option \<Rightarrow> NotificationEvent \<Rightarrow> 'c Request option" where
  "send_request n rfc3339 ctx event =
     (case NewRequestWithContext ctx ''POST'' pushoverAPIURL
             (send_data (config n) (formatTitle (Reason event)) (formatMessage rfc3339 event)) of
        Inl err \<Rightarrow> None
      | Inr req0 \<Rightarrow>
          Some (req0\<lparr>Header := (Header req0)
                  (''Content-Type'' \<mapsto> ''application/x-www-form-urlencoded'')\<rparr>))"

section \<open>The MySQL query log (mysql.go)\<close>

text \<open>
  The types \<open>filtering.Result\<close>, \<open>filtering.ResultRule\<close> and \<open>logEntry\<close> are declared
  outside these sources; the records have the fields \<open>insertEntry\<close> reads, with the types
  it uses them at. \<open>ReasonR\<close> is the field \<open>Reason\<close> of the result; \<open>EntryTime\<close> and
  \<open>ClientID_e\<close> are the fields \<open>Time\<close> and \<open>ClientID\<close> of the entry.
\<close>

record ResultRule =
  Text :: string

record Result =
  IsFiltered :: bool
  ReasonR :: Reason
  Rules :: "ResultRule list"
  ServiceName :: string

record logEntry =
  EntryTime :: Time
  IP :: "8 word list"
  ClientID_e :: string
  ClientProto :: string
  QHost :: string
  QType :: string
  QClass :: string
  Upstream :: string
  Elapsed :: Duration
  Cached :: bool
  AuthenticatedData :: bool
  ReqECS :: string
  Answer :: "8 word list"
  OrigAnswer :: "8 word list"
  Result :: Result

text \<open>A value handed to the database driver; a nil pointer is stored as NULL.\<close>

datatype sql_value =
  SqlNull | SqlTime Time | SqlString string | SqlInt int | SqlBool bool | SqlBytes "8 word list"

definition sql_string_ptr :: "string option \<Rightarrow> sql_value" where
  "sql_string_ptr p = (case p of None \<Rightarrow> SqlNull | Some s \<Rightarrow> SqlString s)"

definition sql_int_ptr :: "int option \<Rightarrow> sql_value" where
  "sql_int_ptr p = (case p of None \<Rightarrow> SqlNull | Some i \<Rightarrow> SqlInt i)"

definition nullString :: "string \<Rightarrow> string option" where
  "nullString s = (if s = [] then None else Some s)"

text \<open>The columns of \<open>insertSQL\<close>, in the order of its placeholders.\<close>

definition insertSQL_columns :: "string list" where
  "insertSQL_columns =
     [''time'', ''server_hostname'', ''client_ip'', ''client_id'', ''client_proto'',
      ''query_host'', ''query_type'', ''query_class'', ''upstream'', ''elapsed_ns'',
      ''cached'', ''authenticated_data'', ''ecs'', ''answer'', ''orig_answer'',
      ''is_filtered'', ''filter_reason'', ''filter_rule'', ''service_name'',
      ''result_json'']"

text \<open>The three pointers \<open>insertEntry\<close> sets before the insert.\<close>

definition filterReason :: "(Reason \<Rightarrow> int) \<Rightarrow> logEntry \<Rightarrow> int option" where
  "filterReason reason_int entry =
     (if IsFiltered (Result entry) then Some (reason_int (ReasonR (Result entry))) else None)"

definition filterRule :: "logEntry \<Rightarrow> string option" where
  "filterRule entry =
     (if IsFiltered (Result entry) then
        (case Rules (Result entry) of
           [] \<Rightarrow> None
         | rule # _ \<Rightarrow> Some (Text rule))
      else None)"

definition serviceName :: "logEntry \<Rightarrow> string option" where
  "serviceName entry =
     (if IsFiltered (Result entry) then
        (if ServiceName (Result entry) \<noteq> [] then Some (ServiceName (Result entry)) else None)
      else None)"

text \<open>
  The arguments of the insert. \<open>reason_int\<close> is the conversion \<open>int(reason)\<close>,
  \<open>ip_String\<close> is \<open>net.IP.String\<close>, \<open>json_Marshal\<close> is \<open>json.Marshal\<close> on a result
  (\<open>Inl\<close> its error) and \<open>hostname\<close> the host name the client holds.
\<close>

definition insertEntry_args ::
  "(Reason \<Rightarrow> int) \<Rightarrow> (8 word list \<Rightarrow> string) \<Rightarrow> (Result \<Rightarrow> string + string) \<Rightarrow>
   string \<Rightarrow> logEntry \<Rightarrow> sql_value list" where
  "insertEntry_args reason_int ip_String json_Marshal hostname entry =
     (let resultJSON =
            (case json_Marshal (Result entry) of Inl err \<Rightarrow> ''{}'' | Inr js \<Rightarrow> js)
      in [SqlTime (EntryTime entry),
          SqlString hostname,
          SqlString (ip_String (IP entry)),
          sql_string_ptr (nullString (ClientID_e entry)),
          SqlString (ClientProto entry),
          SqlString (QHost entry),
          SqlString (QType entry),
          SqlString (QClass entry),
          sql_string_ptr (nullString (Upstream entry)),
          SqlInt (Elapsed entry),
          SqlBool (Cached entry),
          SqlBool (AuthenticatedData entry),
          sql_string_ptr (nullString (ReqECS entry)),
          SqlBytes (Answer entry),
          SqlBytes (OrigAnswer entry),
          SqlBool (IsFiltered (Result entry)),
          sql_int_ptr (filterReason reason_int entry),
          sql_string_ptr (filterRule entry),
          sql_string_ptr (serviceName entry),
          SqlString resultJSON])"

text \<open>
  \<open>insertEntry\<close>: \<open>db_Exec\<close> is \<open>ExecContext\<close> of the database, which answers the
  statement and its arguments with an error or nil; \<open>insertEntry\<close> returns that answer.
\<close>

definition insertEntry ::
  "(string list \<Rightarrow> sql_value list \<Rightarrow> string option) \<Rightarrow> (Reason \<Rightarrow> int) \<Rightarrow>
   (8 word list \<Rightarrow> string) \<Rightarrow> (Result \<Rightarrow> string + string) \<Rightarrow> string \<Rightarrow> logEntry \<Rightarrow>
   string option" where
  "insertEntry db_Exec reason_int ip_String json_Marshal hostname entry =
     db_Exec insertSQL_columns (insertEntry_args reason_int ip_String json_Marshal hostname entry)"

text \<open>The value \<open>insertEntry\<close> passes for a column of the statement.\<close>

definition inserted ::
  "(Reason \<Rightarrow> int) \<Rightarrow> (8 word list \<Rightarrow> string) \<Rightarrow> (Result \<Rightarrow> string + string) \<Rightarrow>
   string \<Rightarrow> logEntry \<Rightarrow> string \<Rightarrow> sql_value option" where
  "inserted reason_int ip_String json_Marshal hostname entry column =
     map_of (zip insertSQL_columns
               (insertEntry_args reason_int ip_String json_Marshal hostname entry)) column"

section \<open>Sample values\<close>

definition sample_config :: PushoverConfig where
  "sample_config =
     \<lparr>AppToken = ''tok'', UserKey = ''usr'', Sound = ''siren'', RateLimitPer5Min = 5,
      GlobalRateLimitPerMin = 1, Priority = - 1\<rparr>"

definition quiet_config :: PushoverConfig where
  "quiet_config =
     \<lparr>AppToken = ''tok'', UserKey = ''usr'', Sound = [], RateLimitPer5Min = 1,
      GlobalRateLimitPerMin = 1, Priority = 0\<rparr>"

text \<open>A notifier whose two limiters admitted \<open>a.com\<close> at time 0.\<close>

definition sample_notifier :: PushoverNotifier where
  "sample_notifier =
     \<lparr>domainRateLimit = \<lparr>lastNotified = [''a.com'' \<mapsto> 0], interval = 5 * Minute\<rparr>,
      globalRateLimit = \<lparr>lastSent = 0, intervalG = Minute\<rparr>,
      config = quiet_config\<rparr>"

definition sample_event :: NotificationEvent where
  "sample_event =
     \<lparr>Domain = ''a.com'', RuleText = ''||a.com^'', ClientIP = ''10.0.0.7'',
      ClientID = ''laptop'', Reason = FilteredBlockList, Timestamp = 0\<rparr>"

definition sample_rfc3339 :: "Time \<Rightarrow> string" where
  "sample_rfc3339 t = (if t = 0 then ''1970-01-01T00:00:00Z'' else ''?'')"

text \<open>A client that reaches the service and gets the given status back.\<close>

definition client_status :: "int \<Rightarrow> unit Request \<Rightarrow> string + Response" where
  "client_status code req = Inr \<lparr>StatusCode = code\<rparr>"

definition sample_entry :: logEntry where
  "sample_entry =
     \<lparr>EntryTime = 0, IP = [10, 0, 0, 7], ClientID_e = [], ClientProto = [],
      QHost = ''a.com'', QType = ''A'', QClass = ''IN'', Upstream = [], Elapsed = 1500,
      Cached = False, AuthenticatedData = False, ReqECS = [], Answer = [], OrigAnswer = [],
      Result = \<lparr>IsFiltered = False, ReasonR = NotFilteredAllowList,
                Rules = [\<lparr>Text = ''@@||a.com^''\<rparr>], ServiceName = ''svc''\<rparr>\<rparr>"

definition sample_reason_int :: "Reason \<Rightarrow> int" where
  "sample_reason_int r =
     (case r of
        NotFilteredAllowList \<Rightarrow> 1
      | FilteredBlockList \<Rightarrow> 3
      | Rewritten \<Rightarrow> 9
      | RewrittenRule \<Rightarrow> 11
      | OtherReason k \<Rightarrow> int k)"

definition sample_ip_String :: "8 word list \<Rightarrow> string" where
  "sample_ip_String ip = (if ip = [10, 0, 0, 7] then ''10.0.0.7'' else ''?'')"

definition sample_json_Marshal :: "Result \<Rightarrow> string + string" where
  "sample_json_Marshal r = Inr ''{}''"

section \<open>Helper facts on the time model\<close>

lemma wrap64_id: "- (2 ^ 63) \<le> x \<Longrightarrow> x < 2 ^ 63 \<Longrightarrow> wrap64 x = x"
  by (simp add: wrap64_def)

lemma go_quo_pos:
  assumes "1 < b" "0 \<le> a" "a < 2 ^ 63"
  shows "go_quo a b = Inr (a div b)"
proof -
  have q0: "0 \<le> a div b"
    using assms by (simp add: pos_imp_zdiv_nonneg_iff)
  have "a div b \<le> a div 1"
    using assms by (intro zdiv_mono2) simp_all
  then have "a div b \<le> a"
    by simp
  then have q1: "a div b < 2 ^ 63"
    using assms by linarith
  have s: "sgn a * sgn b * (\<bar>a\<bar> div \<bar>b\<bar>) = a div b"
  proof (cases "a = 0")
    case True
    then show ?thesis by simp
  next
    case False
    then have "0 < a" using assms by simp
    then show ?thesis using assms by simp
  qed
  have "wrap64 (a div b) = a div b"
    using q0 q1 by (intro wrap64_id) simp_all
  then have "wrap64 (sgn a * sgn b * (\<bar>a\<bar> div \<bar>b\<bar>)) = a div b"
    by (simp only: s)
  moreover have "b \<noteq> 0"
    using assms by simp
  ultimately show ?thesis
    by (simp only: go_quo_def if_False)
qed

lemma newDomainRateLimit_eq:
  "newDomainRateLimit r =
     Inr \<lparr>lastNotified = Map.empty,
          interval = (if 1 < r then 300000000000 div r else 300000000000)\<rparr>"
proof (cases "1 < r")
  case True
  have "go_quo (5 * Minute) r = Inr ((5 * Minute) div r)"
    using True by (intro go_quo_pos) (simp_all add: Minute_def Second_def)
  then show ?thesis
    using True by (simp add: newDomainRateLimit_def Minute_def Second_def)
next
  case False
  then show ?thesis
    by (simp add: newDomainRateLimit_def Minute_def Second_def)
qed

lemma newGlobalRateLimit_eq:
  "newGlobalRateLimit g =
     Inr \<lparr>lastSent = zeroTime,
          intervalG = (if 1 < g then 60000000000 div g else 60000000000)\<rparr>"
proof (cases "1 < g")
  case True
  have "go_quo Minute g = Inr (Minute div g)"
    using True by (intro go_quo_pos) (simp_all add: Minute_def Second_def)
  then show ?thesis
    using True by (simp add: newGlobalRateLimit_def Minute_def Second_def)
next
  case False
  then show ?thesis
    by (simp add: newGlobalRateLimit_def Minute_def Second_def)
qed

lemma div_zero_iff: "0 < a \<Longrightarrow> 1 < b \<Longrightarrow> (a div b = 0) = (a < (b::int))"
  by (auto simp add: zdiv_eq_0_iff)

section \<open>The intervals of the limiters\<close>

text \<open>
  C3: for every domain-tier rate \<open>r\<close> the domain limiter's interval is 5 minutes divided by
  \<open>r\<close> (the division of durations, on whole nanoseconds) when \<open>r > 1\<close> and exactly 5 minutes
  otherwise; for every global-tier rate \<open>g\<close> the global limiter's interval is 1 minute
  divided by \<open>g\<close> when \<open>g > 1\<close> and exactly 1 minute otherwise. Both constructors return a
  limiter, with an empty map and the zero time. The witness gives the rates 0, 1 and 5.
\<close>

theorem constructor_intervals:
  "newDomainRateLimit r =
     Inr \<lparr>lastNotified = Map.empty,
          interval = (if 1 < r then (5 * Minute) div r else 5 * Minute)\<rparr>
   \<and> newGlobalRateLimit g =
     Inr \<lparr>lastSent = zeroTime,
          intervalG = (if 1 < g then Minute div g else Minute)\<rparr>"
  by (simp add: newDomainRateLimit_eq newGlobalRateLimit_eq Minute_def Second_def)

theorem constructor_intervals_witness:
  "newDomainRateLimit 0 = Inr \<lparr>lastNotified = Map.empty, interval = 5 * Minute\<rparr>
   \<and> newDomainRateLimit 1 = Inr \<lparr>lastNotified = Map.empty, interval = 5 * Minute\<rparr>
   \<and> newDomainRateLimit 5 = Inr \<lparr>lastNotified = Map.empty, interval = Minute\<rparr>
   \<and> newGlobalRateLimit 1 = Inr \<lparr>lastSent = zeroTime, intervalG = Minute\<rparr>
   \<and> newGlobalRateLimit 4 = Inr \<lparr>lastSent = zeroTime, intervalG = 15 * Second\<rparr>"
  using constructor_intervals [of 0 1] constructor_intervals [of 1 4]
    constructor_intervals [of 5 1]
  by (simp add: Minute_def Second_def)

lemma newDomainRateLimit_range:
  assumes "newDomainRateLimit rate = Inr r0"
  shows "0 \<le> interval r0 \<and> interval r0 \<le> 300000000000"
proof (cases "1 < rate")
  case True
  have a: "(0::int) \<le> 300000000000 div rate"
    using True by (simp add: pos_imp_zdiv_nonneg_iff)
  have "(300000000000::int) div rate \<le> 300000000000 div 1"
    using True by (intro zdiv_mono2) simp_all
  then have b: "(300000000000::int) div rate \<le> 300000000000"
    by simp
  from assms True have "interval r0 = 300000000000 div rate"
    by (auto simp add: newDomainRateLimit_eq)
  with a b show ?thesis by simp
next
  case False
  with assms have "interval r0 = 300000000000"
    by (auto simp add: newDomainRateLimit_eq)
  then show ?thesis by simp
qed

lemma time_Sub_less:
  "minDuration < i \<Longrightarrow> i \<le> maxDuration \<Longrightarrow> (time_Sub now t < i) = (now - t < i)"
  by (auto simp add: time_Sub_def Let_def)

lemma domain_shouldNotify_exact:
  assumes "minDuration < interval r" and "interval r \<le> maxDuration"
  shows "domain_shouldNotify r now d =
     (if (case lastNotified r d of None \<Rightarrow> True | Some t \<Rightarrow> interval r \<le> now - t)
      then (True, r\<lparr>lastNotified := (lastNotified r)(d \<mapsto> now)\<rparr>)
      else (False, r))"
  using assms
  by (simp add: domain_shouldNotify_def time_Sub_less not_less split: option.split)

section \<open>Admission by the domain limiter\<close>

text \<open>
  C2: for every limiter a constructor call returns, with any map \<open>m\<close> in it, every domain
  \<open>d\<close> and every clock reading \<open>now\<close>: \<open>shouldNotify\<close> returns true and stores \<open>now\<close>
  for \<open>d\<close>, leaving every other entry as it is, if and only if \<open>d\<close> has no record or
  \<open>now\<close> minus the stored time is at least the interval; otherwise it returns false and
  leaves the whole map unchanged.
\<close>

theorem domain_shouldNotify_spec:
  assumes "newDomainRateLimit rate = Inr r0"
  shows "domain_shouldNotify (r0\<lparr>lastNotified := m\<rparr>) now d =
     (if (case m d of None \<Rightarrow> True | Some t \<Rightarrow> interval r0 \<le> now - t)
      then (True, r0\<lparr>lastNotified := m(d \<mapsto> now)\<rparr>)
      else (False, r0\<lparr>lastNotified := m\<rparr>))"
proof -
  from newDomainRateLimit_range [OF assms]
  have "minDuration < interval (r0\<lparr>lastNotified := m\<rparr>)"
    and "interval (r0\<lparr>lastNotified := m\<rparr>) \<le> maxDuration"
    by (simp_all add: minDuration_def maxDuration_def)
  from domain_shouldNotify_exact [OF this, of now d] show ?thesis
    by (cases "m d") simp_all
qed

theorem domain_shouldNotify_spec_witness:
  "newDomainRateLimit 1 = Inr \<lparr>lastNotified = Map.empty, interval = 5 * Minute\<rparr>
   \<and> domain_shouldNotify \<lparr>lastNotified = [''a.com'' \<mapsto> 0], interval = 5 * Minute\<rparr>
        (299 * Second) ''a.com''
      = (False, \<lparr>lastNotified = [''a.com'' \<mapsto> 0], interval = 5 * Minute\<rparr>)
   \<and> domain_shouldNotify \<lparr>lastNotified = [''a.com'' \<mapsto> 0], interval = 5 * Minute\<rparr>
        (300 * Second) ''a.com''
      = (True, \<lparr>lastNotified = [''a.com'' \<mapsto> 300 * Second], interval = 5 * Minute\<rparr>)
   \<and> domain_shouldNotify \<lparr>lastNotified = [''a.com'' \<mapsto> 0], interval = 5 * Minute\<rparr>
        Second ''b.com''
      = (True, \<lparr>lastNotified = [''a.com'' \<mapsto> 0, ''b.com'' \<mapsto> Second],
                 interval = 5 * Minute\<rparr>)"
proof -
  have c: "newDomainRateLimit 1 = Inr \<lparr>lastNotified = Map.empty, interval = 5 * Minute\<rparr>"
    by (simp add: newDomainRateLimit_eq Minute_def Second_def)
  show ?thesis
    using c
      domain_shouldNotify_spec [OF c, of "[''a.com'' \<mapsto> 0]" "299 * Second" "''a.com''"]
      domain_shouldNotify_spec [OF c, of "[''a.com'' \<mapsto> 0]" "300 * Second" "''a.com''"]
      domain_shouldNotify_spec [OF c, of "[''a.com'' \<mapsto> 0]" "Second" "''b.com''"]
    by (simp add: Minute_def Second_def)
qed

section \<open>Cleanup of stale entries\<close>

lemma fold_cleanup_step:
  "fold (cleanup_step c) ks m =
     (\<lambda>d. if d \<in> set ks
          then (case m d of None \<Rightarrow> None | Some t \<Rightarrow> if t < c then None else Some t)
          else m d)"
proof (induction ks arbitrary: m)
  case Nil
  then show ?case by simp
next
  case (Cons k ks)
  have "fold (cleanup_step c) (k # ks) m = fold (cleanup_step c) ks (cleanup_step c k m)"
    by simp
  also have "\<dots> =
     (\<lambda>d. if d \<in> set ks
          then (case cleanup_step c k m d of
                  None \<Rightarrow> None
                | Some t \<Rightarrow> if t < c then None else Some t)
          else cleanup_step c k m d)"
    by (rule Cons.IH)
  also have "\<dots> =
     (\<lambda>d. if d \<in> set (k # ks)
          then (case m d of None \<Rightarrow> None | Some t \<Rightarrow> if t < c then None else Some t)
          else m d)"
    by (rule ext) (auto simp add: cleanup_step_def time_Before_def split: option.splits)
  finally show ?case .
qed

lemma cleanup_cutoff:
  assumes "0 \<le> i" and "i \<le> 300000000000"
  shows "time_Add now (wrap64 (wrap64 (- i) * 2)) = now - 2 * i"
proof -
  have "wrap64 (- i) = - i"
    using assms by (intro wrap64_id) simp_all
  moreover have "wrap64 (- i * 2) = - i * 2"
    using assms by (intro wrap64_id) simp_all
  ultimately show ?thesis
    by (simp add: time_Add_def)
qed

lemma cleanup_exact:
  assumes "0 \<le> interval r" and "interval r \<le> 300000000000"
    and "set ks = dom (lastNotified r)"
  shows "cleanup r now ks =
     r\<lparr>lastNotified :=
         (\<lambda>d. case lastNotified r d of
                None \<Rightarrow> None
              | Some t \<Rightarrow> if 2 * interval r < now - t then None else Some t)\<rparr>"
proof -
  have "fold (cleanup_step (now - 2 * interval r)) ks (lastNotified r) =
     (\<lambda>d. case lastNotified r d of
            None \<Rightarrow> None
          | Some t \<Rightarrow> if 2 * interval r < now - t then None else Some t)"
  proof (rule ext)
    fix d
    show "fold (cleanup_step (now - 2 * interval r)) ks (lastNotified r) d =
       (case lastNotified r d of
          None \<Rightarrow> None
        | Some t \<Rightarrow> if 2 * interval r < now - t then None else Some t)"
    proof (cases "lastNotified r d")
      case None
      then show ?thesis
        by (simp add: fold_cleanup_step)
    next
      case (Some t)
      then have "d \<in> set ks"
        using assms(3) by auto
      moreover have "(t < now - 2 * interval r) = (2 * interval r < now - t)"
        by linarith
      ultimately show ?thesis
        using Some by (simp add: fold_cleanup_step)
    qed
  qed
  then show ?thesis
    using assms(1,2) by (simp add: cleanup_def cleanup_cutoff)
qed

text \<open>
  C4: for every limiter a constructor call returns, with any map \<open>m\<close> in it, every clock
  reading \<open>now\<close> and every order \<open>ks\<close> in which the loop visits the keys of \<open>m\<close>:
  \<open>cleanup\<close> deletes exactly the entries whose age \<open>now - t\<close> is strictly greater than twice
  the interval, and every other entry stays with its time unchanged. \<open>Cleanup\<close> of the
  notifier does this to its domain limiter and nothing else.
\<close>

theorem cleanup_spec:
  assumes "newDomainRateLimit rate = Inr r0" and "set ks = dom m"
  shows "cleanup (r0\<lparr>lastNotified := m\<rparr>) now ks =
       r0\<lparr>lastNotified :=
           (\<lambda>d. case m d of
                  None \<Rightarrow> None
                | Some t \<Rightarrow> if 2 * interval r0 < now - t then None else Some t)\<rparr>
     \<and> Cleanup (n\<lparr>domainRateLimit := r0\<lparr>lastNotified := m\<rparr>\<rparr>) now ks =
       n\<lparr>domainRateLimit := r0\<lparr>lastNotified :=
           (\<lambda>d. case m d of
                  None \<Rightarrow> None
                | Some t \<Rightarrow> if 2 * interval r0 < now - t then None else Some t)\<rparr>\<rparr>"
proof -
  let ?r = "r0\<lparr>lastNotified := m\<rparr>"
  from newDomainRateLimit_range [OF assms(1)]
  have "0 \<le> interval ?r" and "interval ?r \<le> 300000000000"
    by simp_all
  moreover have "set ks = dom (lastNotified ?r)"
    using assms(2) by simp
  ultimately have "cleanup ?r now ks =
     ?r\<lparr>lastNotified :=
         (\<lambda>d. case lastNotified ?r d of
                None \<Rightarrow> None
              | Some t \<Rightarrow> if 2 * interval ?r < now - t then None else Some t)\<rparr>"
    by (rule cleanup_exact)
  then show ?thesis
    by (simp add: Cleanup_def cong: option.case_cong)
qed

theorem cleanup_spec_witness:
  "newDomainRateLimit 1 = Inr \<lparr>lastNotified = Map.empty, interval = 5 * Minute\<rparr>
   \<and> set [''old'', ''edge'', ''new'']
       = dom [''old'' \<mapsto> 0, ''edge'' \<mapsto> 1, ''new'' \<mapsto> 500 * Second]
   \<and> lastNotified
        (cleanup
           \<lparr>lastNotified = [''old'' \<mapsto> 0, ''edge'' \<mapsto> 1, ''new'' \<mapsto> 500 * Second],
            interval = 5 * Minute\<rparr>
           (600 * Second + 1) [''old'', ''edge'', ''new'']) ''old'' = None
   \<and> lastNotified
        (cleanup
           \<lparr>lastNotified = [''old'' \<mapsto> 0, ''edge'' \<mapsto> 1, ''new'' \<mapsto> 500 * Second],
            interval = 5 * Minute\<rparr>
           (600 * Second + 1) [''old'', ''edge'', ''new'']) ''edge'' = Some 1
   \<and> lastNotified
        (cleanup
           \<lparr>lastNotified = [''old'' \<mapsto> 0, ''edge'' \<mapsto> 1, ''new'' \<mapsto> 500 * Second],
            interval = 5 * Minute\<rparr>
           (600 * Second + 1) [''old'', ''edge'', ''new'']) ''new'' = Some (500 * Second)"
proof -
  have c: "newDomainRateLimit 1 = Inr \<lparr>lastNotified = Map.empty, interval = 5 * Minute\<rparr>"
    by (simp add: newDomainRateLimit_eq Minute_def Second_def)
  have k: "set [''old'', ''edge'', ''new'']
       = dom [''old'' \<mapsto> 0, ''edge'' \<mapsto> 1, ''new'' \<mapsto> 500 * Second]"
    by auto
  show ?thesis
    using c k cleanup_spec [OF c k, of "600 * Second + 1" sample_notifier]
    by (simp add: Minute_def Second_def)
qed

section \<open>The global limiter comes first\<close>

lemma global_denied_unchanged:
  "\<not> fst (global_shouldNotify g now) \<Longrightarrow> snd (global_shouldNotify g now) = g"
  by (simp add: global_shouldNotify_def split: if_splits)

lemma ShouldNotify_global_denied:
  assumes "\<not> fst (global_shouldNotify (globalRateLimit n) now_g)"
  shows "ShouldNotify n now_g now_d d = ((False, ''global''), n)"
proof -
  obtain ok g where e: "global_shouldNotify (globalRateLimit n) now_g = (ok, g)"
    by (cases "global_shouldNotify (globalRateLimit n) now_g")
  with assms global_denied_unchanged [OF assms] have "\<not> ok" and "g = globalRateLimit n"
    by simp_all
  with e show ?thesis
    by (simp add: ShouldNotify_def)
qed

lemma ShouldNotify_global_admitted:
  assumes "fst (global_shouldNotify (globalRateLimit n) now_g)"
  shows "fst (ShouldNotify n now_g now_d d) \<noteq> (False, ''global'')
     \<and> lastSent (globalRateLimit (snd (ShouldNotify n now_g now_d d))) = now_g"
proof -
  obtain ok g where e: "global_shouldNotify (globalRateLimit n) now_g = (ok, g)"
    by (cases "global_shouldNotify (globalRateLimit n) now_g")
  with assms have ok: "ok" by simp
  from e ok have g: "lastSent g = now_g"
    by (auto simp add: global_shouldNotify_def split: if_splits)
  obtain okd dl where
    f: "domain_shouldNotify (domainRateLimit n) now_d d = (okd, dl)"
    by (cases "domain_shouldNotify (domainRateLimit n) now_d d")
  from e ok f g show ?thesis
    by (simp add: ShouldNotify_def Let_def)
qed

lemma ShouldNotify_global_answer:
  assumes "fst (ShouldNotify n now_g now_d d) = (False, ''global'')"
  shows "snd (ShouldNotify n now_g now_d d) = n"
proof (cases "fst (global_shouldNotify (globalRateLimit n) now_g)")
  case True
  from ShouldNotify_global_admitted [OF True, of now_d d] assms show ?thesis
    by simp
next
  case False
  then show ?thesis
    by (simp add: ShouldNotify_global_denied)
qed

lemma ShouldNotify_run_closed:
  assumes "\<forall>res \<in> set (fst (ShouldNotify_run n calls)). res = (False, ''global'')"
  shows "snd (ShouldNotify_run n calls) = n"
  using assms
proof (induction calls arbitrary: n)
  case Nil
  then show ?case by simp
next
  case (Cons call calls)
  obtain now_g now_d d where c: "call = (now_g, now_d, d)"
    by (cases call)
  obtain res n1 where s: "ShouldNotify n now_g now_d d = (res, n1)"
    by (cases "ShouldNotify n now_g now_d d")
  obtain ress n2 where r: "ShouldNotify_run n1 calls = (ress, n2)"
    by (cases "ShouldNotify_run n1 calls")
  from Cons.prems c s r have res: "res = (False, ''global'')"
    and rest: "\<forall>x \<in> set ress. x = (False, ''global'')"
    by simp_all
  from res s ShouldNotify_global_answer [of n now_g now_d d] have "n1 = n"
    by simp
  moreover from rest r Cons.IH [of n1] have "n2 = n1"
    by simp
  ultimately show ?case
    using c s r by simp
qed

text \<open>
  C1: for every domain, every notifier state and every pair of clock readings:
  when the global limiter denies, \<open>ShouldNotify\<close> answers \<open>(false, "global")\<close> and the
  notifier is as before, so the per-domain map keeps every stored time; when the global
  limiter admits, it has recorded its reading whatever the domain limiter then answers
  (it is asked first). Over any run of calls that are all answered \<open>(false, "global")\<close>,
  the per-domain limiter at the end is the one at the start.
\<close>

theorem ShouldNotify_global_first:
  "(\<not> fst (global_shouldNotify (globalRateLimit n) now_g) \<longrightarrow>
      ShouldNotify n now_g now_d d = ((False, ''global''), n)
      \<and> lastNotified (domainRateLimit (snd (ShouldNotify n now_g now_d d)))
          = lastNotified (domainRateLimit n))
   \<and> (fst (global_shouldNotify (globalRateLimit n) now_g) \<longrightarrow>
      fst (ShouldNotify n now_g now_d d) \<noteq> (False, ''global'')
      \<and> lastSent (globalRateLimit (snd (ShouldNotify n now_g now_d d))) = now_g)
   \<and> ((\<forall>res \<in> set (fst (ShouldNotify_run n calls)). res = (False, ''global'')) \<longrightarrow>
      domainRateLimit (snd (ShouldNotify_run n calls)) = domainRateLimit n)"
  using ShouldNotify_global_denied [of n now_g now_d d]
    ShouldNotify_global_admitted [of n now_g now_d d]
    ShouldNotify_run_closed [of n calls]
  by auto

theorem ShouldNotify_global_first_witness:
  "\<not> fst (global_shouldNotify (globalRateLimit sample_notifier) Second)
   \<and> ShouldNotify sample_notifier Second (Second + 1) ''a.com''
       = ((False, ''global''), sample_notifier)
   \<and> fst (global_shouldNotify (globalRateLimit sample_notifier) (61 * Second))
   \<and> ShouldNotify sample_notifier (61 * Second) (61 * Second + 1) ''a.com''
       = ((False, ''domain''),
          sample_notifier\<lparr>globalRateLimit := \<lparr>lastSent = 61 * Second, intervalG = Minute\<rparr>\<rparr>)
   \<and> fst (ShouldNotify_run sample_notifier
           [(Second, Second + 1, ''a.com''), (30 * Second, 30 * Second + 1, ''a.com'')])
       = [(False, ''global''), (False, ''global'')]
   \<and> lastNotified (domainRateLimit (snd (ShouldNotify_run sample_notifier
           [(Second, Second + 1, ''a.com''), (30 * Second, 30 * Second + 1, ''a.com'')])))
         ''a.com''
       = Some 0"
  using
    ShouldNotify_global_first [of sample_notifier Second "Second + 1" "''a.com''"
      "[(Second, Second + 1, ''a.com''), (30 * Second, 30 * Second + 1, ''a.com'')]"]
    ShouldNotify_global_first [of sample_notifier "61 * Second" "61 * Second + 1" "''a.com''"
      "[]"]
  by (simp add: sample_notifier_def quiet_config_def ShouldNotify_def global_shouldNotify_def
      domain_shouldNotify_def time_Sub_def maxDuration_def minDuration_def Minute_def
      Second_def Let_def)

section \<open>Titles and bodies\<close>

text \<open>
  C6: the title is "AdGuard: Domain Blocked" for the blocklist reason, "AdGuard: Domain
  Allowed" for the allowlist reason, "AdGuard: Domain Rewritten" for each of the two
  rewrite reasons, and "AdGuard: Custom Rule Match" for every other reason; so the titles
  end in "Blocked", "Allowed", "Rewritten" and "Custom Rule Match".
\<close>

theorem formatTitle_buckets:
  "formatTitle FilteredBlockList = ''AdGuard: Domain Blocked''
   \<and> suffix ''Blocked'' (formatTitle FilteredBlockList)
   \<and> formatTitle NotFilteredAllowList = ''AdGuard: Domain Allowed''
   \<and> suffix ''Allowed'' (formatTitle NotFilteredAllowList)
   \<and> formatTitle Rewritten = ''AdGuard: Domain Rewritten''
   \<and> formatTitle RewrittenRule = ''AdGuard: Domain Rewritten''
   \<and> suffix ''Rewritten'' (formatTitle Rewritten)
   \<and> suffix ''Rewritten'' (formatTitle RewrittenRule)
   \<and> (r \<notin> {FilteredBlockList, NotFilteredAllowList, Rewritten, RewrittenRule} \<longrightarrow>
        formatTitle r = ''AdGuard: Custom Rule Match''
        \<and> suffix ''Custom Rule Match'' (formatTitle r))"
proof -
  have "suffix ''Blocked'' (''AdGuard: Domain '' @ ''Blocked'')"
    and "suffix ''Allowed'' (''AdGuard: Domain '' @ ''Allowed'')"
    and "suffix ''Rewritten'' (''AdGuard: Domain '' @ ''Rewritten'')"
    and "suffix ''Custom Rule Match'' (''AdGuard: '' @ ''Custom Rule Match'')"
    by (rule suffix_appendI, rule suffix_order.refl)+
  then show ?thesis
    by (cases r) (simp_all add: formatTitle_def)
qed

theorem formatTitle_buckets_witness:
  "OtherReason 4 \<notin> {FilteredBlockList, NotFilteredAllowList, Rewritten, RewrittenRule}
   \<and> formatTitle (OtherReason 4) = ''AdGuard: Custom Rule Match''
   \<and> suffix ''Custom Rule Match'' (formatTitle (OtherReason 4))"
proof -
  have "OtherReason 4 \<notin> {FilteredBlockList, NotFilteredAllowList, Rewritten, RewrittenRule}"
    by simp
  with formatTitle_buckets [of "OtherReason 4"] show ?thesis
    by blast
qed

text \<open>
  C7: for every event the body is the three lines "Domain: d", "Client: c" and "Time: t",
  where \<open>t\<close> is the RFC3339 rendering of the event's timestamp and \<open>c\<close> is "id (ip)" when
  the client ID is not empty and the IP alone when it is empty; so the body contains the
  domain, the client descriptor and the rendered timestamp.
\<close>

theorem formatMessage_body:
  "formatMessage rfc3339 event =
     ''Domain: '' @ Domain event @ [CHR 0x0A] @
     ''Client: '' @
       (if ClientID event = [] then ClientIP event
        else ClientID event @ '' ('' @ ClientIP event @ '')'') @ [CHR 0x0A] @
     ''Time: '' @ rfc3339 (Timestamp event)
   \<and> (ClientID event \<noteq> [] \<longrightarrow>
        sublist (ClientID event @ '' ('' @ ClientIP event @ '')'')
          (formatMessage rfc3339 event))
   \<and> (ClientID event = [] \<longrightarrow>
        sublist (''Client: '' @ ClientIP event @ [CHR 0x0A]) (formatMessage rfc3339 event))
   \<and> sublist (Domain event) (formatMessage rfc3339 event)
   \<and> sublist (rfc3339 (Timestamp event)) (formatMessage rfc3339 event)"
proof -
  let ?c = "if ClientID event = [] then ClientIP event
            else ClientID event @ '' ('' @ ClientIP event @ '')''"
  let ?t = "rfc3339 (Timestamp event)"
  have m: "formatMessage rfc3339 event =
     ''Domain: '' @ Domain event @ [CHR 0x0A] @ ''Client: '' @ ?c @ [CHR 0x0A] @ ''Time: '' @ ?t"
    by (simp add: formatMessage_def)
  have d: "sublist (Domain event) (formatMessage rfc3339 event)"
    unfolding m by (rule sublist_appendI)
  have "formatMessage rfc3339 event =
     (''Domain: '' @ Domain event @ [CHR 0x0A] @ ''Client: '' @ ?c @ [CHR 0x0A] @ ''Time: '')
       @ ?t @ []"
    by (simp add: m)
  then have t: "sublist ?t (formatMessage rfc3339 event)"
    by (simp only: sublist_appendI)
  have "formatMessage rfc3339 event =
     (''Domain: '' @ Domain event @ [CHR 0x0A] @ ''Client: '') @ ?c @ ([CHR 0x0A] @ ''Time: '' @ ?t)"
    by (simp add: m)
  then have c: "sublist ?c (formatMessage rfc3339 event)"
    by (simp only: sublist_appendI)
  have "formatMessage rfc3339 event =
     (''Domain: '' @ Domain event @ [CHR 0x0A]) @ (''Client: '' @ ?c @ [CHR 0x0A])
       @ (''Time: '' @ ?t)"
    by (simp add: m)
  then have l: "sublist (''Client: '' @ ?c @ [CHR 0x0A]) (formatMessage rfc3339 event)"
    by (simp only: sublist_appendI)
  from m d t c l show ?thesis
    by (simp split: if_splits)
qed

theorem formatMessage_body_witness:
  "ClientID sample_event \<noteq> []
   \<and> formatMessage sample_rfc3339 sample_event =
       ''Domain: a.com'' @ [CHR 0x0A] @ ''Client: laptop (10.0.0.7)'' @ [CHR 0x0A] @
       ''Time: 1970-01-01T00:00:00Z''
   \<and> sublist ''laptop (10.0.0.7)'' (formatMessage sample_rfc3339 sample_event)
   \<and> ClientID (sample_event\<lparr>ClientID := []\<rparr>) = []
   \<and> formatMessage sample_rfc3339 (sample_event\<lparr>ClientID := []\<rparr>) =
       ''Domain: a.com'' @ [CHR 0x0A] @ ''Client: 10.0.0.7'' @ [CHR 0x0A] @
       ''Time: 1970-01-01T00:00:00Z''"
proof -
  note t1 = formatMessage_body [of sample_rfc3339 sample_event]
  note t2 = formatMessage_body [of sample_rfc3339 "sample_event\<lparr>ClientID := []\<rparr>"]
  have a: "ClientID sample_event \<noteq> []"
    by (simp add: sample_event_def)
  have b: "ClientID (sample_event\<lparr>ClientID := []\<rparr>) = []"
    by simp
  from t1 a have "sublist (ClientID sample_event @ '' ('' @ ClientIP sample_event @ '')'')
      (formatMessage sample_rfc3339 sample_event)"
    by blast
  moreover have "ClientID sample_event @ '' ('' @ ClientIP sample_event @ '')''
      = ''laptop (10.0.0.7)''"
    by (simp add: sample_event_def)
  ultimately have s: "sublist ''laptop (10.0.0.7)'' (formatMessage sample_rfc3339 sample_event)"
    by (simp only:)
  from t1 have e1: "formatMessage sample_rfc3339 sample_event =
       ''Domain: a.com'' @ [CHR 0x0A] @ ''Client: laptop (10.0.0.7)'' @ [CHR 0x0A] @
       ''Time: 1970-01-01T00:00:00Z''"
    by (simp add: sample_event_def sample_rfc3339_def)
  from t2 have e2: "formatMessage sample_rfc3339 (sample_event\<lparr>ClientID := []\<rparr>) =
       ''Domain: a.com'' @ [CHR 0x0A] @ ''Client: 10.0.0.7'' @ [CHR 0x0A] @
       ''Time: 1970-01-01T00:00:00Z''"
    by (simp add: sample_event_def sample_rfc3339_def)
  from a b s e1 e2 show ?thesis
    by (simp only: simp_thms)
qed

section \<open>The request and its outcome\<close>

lemma send_request_Some:
  "send_request n rfc3339 (Some c) event =
     Some \<lparr>Context = c, Method = ''POST'', URL = pushoverAPIURL,
           Body = send_data (config n) (formatTitle (Reason event))
                    (formatMessage rfc3339 event),
           Header = [''Content-Type'' \<mapsto> ''application/x-www-form-urlencoded'']\<rparr>"
  by (simp add: send_request_def NewRequestWithContext_def)

lemma send_request_None: "send_request n rfc3339 None event = None"
  by (simp add: send_request_def NewRequestWithContext_def)

lemma send_nil_context:
  "send n rfc3339 client_Do None event = Some (CreatingRequest ''net/http: nil Context'')"
  by (simp add: send_def NewRequestWithContext_def)

lemma send_with_context:
  assumes "send_request n rfc3339 (Some c) event = Some req"
  shows "send n rfc3339 client_Do (Some c) event =
     (case client_Do req of
        Inl err \<Rightarrow> Some (SendingRequest err)
      | Inr resp \<Rightarrow>
          if StatusCode resp \<noteq> 200 then Some (ReturnedStatus (StatusCode resp)) else None)"
  using assms
  by (auto simp add: send_def send_request_def NewRequestWithContext_def Let_def)

lemma send_data_fields:
  "send_data cfg title message ''token'' = Some [AppToken cfg]"
  "send_data cfg title message ''user'' = Some [UserKey cfg]"
  "send_data cfg title message ''title'' = Some [title]"
  "send_data cfg title message ''message'' = Some [message]"
  "send_data cfg title message ''priority'' =
     (if Priority cfg \<noteq> 0 then Some [show_int (Priority cfg)] else None)"
  "send_data cfg title message ''sound'' =
     (if Sound cfg \<noteq> [] then Some [Sound cfg] else None)"
  by (simp_all add: send_data_def Values_Set_def Let_def)

lemma send_data_dom:
  "dom (send_data cfg title message) \<subseteq>
     {''token'', ''user'', ''title'', ''message'', ''priority'', ''sound''}"
  by (auto simp add: send_data_def Values_Set_def Let_def split: if_splits)

text \<open>
  C8: for every configuration and event, with a context that is not nil, \<open>send\<close> builds a
  POST to the Pushover URL and hands it to the client; its form has the fields token,
  user, title and message (the two credentials, the formatted title and body), the field
  priority (the decimal number) if and only if the configured priority is not zero, the
  field sound if and only if the configured sound is not empty, and no other field.
\<close>

theorem send_form_fields:
  "\<exists>req. send_request n rfc3339 (Some c) event = Some req
     \<and> send n rfc3339 client_Do (Some c) event =
         (case client_Do req of
            Inl err \<Rightarrow> Some (SendingRequest err)
          | Inr resp \<Rightarrow>
              if StatusCode resp \<noteq> 200 then Some (ReturnedStatus (StatusCode resp))
              else None)
     \<and> Method req = ''POST'' \<and> URL req = pushoverAPIURL
     \<and> Body req ''token'' = Some [AppToken (config n)]
     \<and> Body req ''user'' = Some [UserKey (config n)]
     \<and> Body req ''title'' = Some [formatTitle (Reason event)]
     \<and> Body req ''message'' = Some [formatMessage rfc3339 event]
     \<and> (''priority'' \<in> dom (Body req) \<longleftrightarrow> Priority (config n) \<noteq> 0)
     \<and> (Priority (config n) \<noteq> 0 \<longrightarrow>
          Body req ''priority'' = Some [show_int (Priority (config n))])
     \<and> (''sound'' \<in> dom (Body req) \<longleftrightarrow> Sound (config n) \<noteq> [])
     \<and> (Sound (config n) \<noteq> [] \<longrightarrow> Body req ''sound'' = Some [Sound (config n)])
     \<and> dom (Body req) \<subseteq>
          {''token'', ''user'', ''title'', ''message'', ''priority'', ''sound''}"
proof -
  let ?req = "\<lparr>Context = c, Method = ''POST'', URL = pushoverAPIURL,
           Body = send_data (config n) (formatTitle (Reason event))
                    (formatMessage rfc3339 event),
           Header = [''Content-Type'' \<mapsto> ''application/x-www-form-urlencoded'']\<rparr>"
  have r: "send_request n rfc3339 (Some c) event = Some ?req"
    by (rule send_request_Some)
  have s: "send n rfc3339 client_Do (Some c) event =
         (case client_Do ?req of
            Inl err \<Rightarrow> Some (SendingRequest err)
          | Inr resp \<Rightarrow>
              if StatusCode resp \<noteq> 200 then Some (ReturnedStatus (StatusCode resp))
              else None)"
    by (rule send_with_context [OF r])
  have p: "(''priority'' \<in> dom (Body ?req)) = (Priority (config n) \<noteq> 0)"
    by (simp add: dom_def send_data_fields)
  have q: "(''sound'' \<in> dom (Body ?req)) = (Sound (config n) \<noteq> [])"
    by (simp add: dom_def send_data_fields)
  have d: "dom (Body ?req) \<subseteq>
          {''token'', ''user'', ''title'', ''message'', ''priority'', ''sound''}"
    by (simp add: send_data_dom)
  show ?thesis
    apply (rule exI [of _ ?req])
    apply (intro conjI)
               apply (rule r)
              apply (rule s)
             apply simp
            apply simp
           apply (simp add: send_data_fields)
          apply (simp add: send_data_fields)
         apply (simp add: send_data_fields)
        apply (simp add: send_data_fields)
       apply (rule p)
      apply (simp add: send_data_fields)
     apply (rule q)
    apply (simp add: send_data_fields)
    apply (rule d)
    done
qed

theorem send_form_fields_witness:
  "Priority (config (sample_notifier\<lparr>config := sample_config\<rparr>)) \<noteq> 0
   \<and> Sound (config (sample_notifier\<lparr>config := sample_config\<rparr>)) \<noteq> []
   \<and> Body (the (send_request (sample_notifier\<lparr>config := sample_config\<rparr>) sample_rfc3339
                  (Some ()) sample_event)) ''priority'' = Some [''-1'']
   \<and> Body (the (send_request (sample_notifier\<lparr>config := sample_config\<rparr>) sample_rfc3339
                  (Some ()) sample_event)) ''sound'' = Some [''siren'']
   \<and> Body (the (send_request (sample_notifier\<lparr>config := sample_config\<rparr>) sample_rfc3339
                  (Some ()) sample_event)) ''token'' = Some [''tok'']
   \<and> Priority (config sample_notifier) = 0
   \<and> Sound (config sample_notifier) = []
   \<and> ''priority'' \<notin> dom (Body (the (send_request sample_notifier sample_rfc3339
                  (Some ()) sample_event)))
   \<and> ''sound'' \<notin> dom (Body (the (send_request sample_notifier sample_rfc3339
                  (Some ()) sample_event)))"
proof -
  let ?n = "sample_notifier\<lparr>config := sample_config\<rparr>"
  have c1: "Priority (config ?n) \<noteq> 0" and c2: "Sound (config ?n) \<noteq> []"
    and c3: "show_int (Priority (config ?n)) = ''-1''" and c4: "Sound (config ?n) = ''siren''"
    and c5: "AppToken (config ?n) = ''tok''"
    by (simp_all add: sample_config_def show_int_def show_nat.simps)
  have d1: "Priority (config sample_notifier) = 0" and d2: "Sound (config sample_notifier) = []"
    by (simp_all add: sample_notifier_def quiet_config_def)
  from send_form_fields [of ?n sample_rfc3339 "()" sample_event "client_status 200"] c1 c2
  obtain req where "send_request ?n sample_rfc3339 (Some ()) sample_event = Some req"
    and "Body req ''priority'' = Some [show_int (Priority (config ?n))]"
    and "Body req ''sound'' = Some [Sound (config ?n)]"
    and "Body req ''token'' = Some [AppToken (config ?n)]"
    by blast
  then have a: "Body (the (send_request ?n sample_rfc3339 (Some ()) sample_event)) ''priority''
        = Some [''-1'']"
    and b: "Body (the (send_request ?n sample_rfc3339 (Some ()) sample_event)) ''sound''
        = Some [''siren'']"
    and t: "Body (the (send_request ?n sample_rfc3339 (Some ()) sample_event)) ''token''
        = Some [''tok'']"
    by (simp_all only: c3 c4 c5 option.sel)
  from send_form_fields [of sample_notifier sample_rfc3339 "()" sample_event
      "client_status 200"] d1 d2
  obtain req' where "send_request sample_notifier sample_rfc3339 (Some ()) sample_event = Some req'"
    and "''priority'' \<notin> dom (Body req')" and "''sound'' \<notin> dom (Body req')"
    by blast
  then have e: "''priority'' \<notin> dom (Body (the (send_request sample_notifier sample_rfc3339
                  (Some ()) sample_event)))"
    and f: "''sound'' \<notin> dom (Body (the (send_request sample_notifier sample_rfc3339
                  (Some ()) sample_event)))"
    by (simp_all only: option.sel not_False_eq_True)
  from c1 c2 a b t d1 d2 e f show ?thesis
    by (simp only: simp_thms)
qed

text \<open>
  C5, as the code has it: \<open>send\<close> returns an error if and only if the request cannot be
  created (a nil context), or the client reports a transport error, or the status of the
  response is not 200; with a context, no transport error and status 200 it returns nil.
  The counterexample: the status 204 is in the 2xx range and \<open>send\<close> returns an error.
\<close>

theorem send_fails_iff:
  "send n rfc3339 client_Do ctx event =
     (case send_request n rfc3339 ctx event of
        None \<Rightarrow> Some (CreatingRequest ''net/http: nil Context'')
      | Some req \<Rightarrow>
          (case client_Do req of
             Inl err \<Rightarrow> Some (SendingRequest err)
           | Inr resp \<Rightarrow>
               if StatusCode resp = 200 then None
               else Some (ReturnedStatus (StatusCode resp))))
   \<and> (send_request n rfc3339 ctx event = None \<longleftrightarrow> ctx = None)
   \<and> (send n rfc3339 client_Do ctx event \<noteq> None \<longleftrightarrow>
        ctx = None
        \<or> (\<exists>req. send_request n rfc3339 ctx event = Some req
              \<and> ((\<exists>err. client_Do req = Inl err)
                 \<or> (\<exists>resp. client_Do req = Inr resp \<and> StatusCode resp \<noteq> 200))))"
proof (cases ctx)
  case None
  then show ?thesis
    by (simp add: send_nil_context send_request_None)
next
  case (Some c)
  obtain req where r: "send_request n rfc3339 (Some c) event = Some req"
    by (simp add: send_request_Some)
  show ?thesis
  proof (cases "client_Do req")
    case (Inl err)
    with Some r show ?thesis
      by (simp add: send_with_context [OF r])
  next
    case (Inr resp)
    with Some r show ?thesis
      by (simp add: send_with_context [OF r])
  qed
qed

theorem send_fails_iff_witness:
  "send sample_notifier sample_rfc3339 (client_status 200) (Some ()) sample_event = None
   \<and> send sample_notifier sample_rfc3339 (client_status 500) (Some ()) sample_event
       = Some (ReturnedStatus 500)
   \<and> send sample_notifier sample_rfc3339 (client_status 200) None sample_event
       = Some (CreatingRequest ''net/http: nil Context'')"
  using send_fails_iff [of sample_notifier sample_rfc3339 "client_status 200" "Some ()"
      sample_event]
    send_fails_iff [of sample_notifier sample_rfc3339 "client_status 500" "Some ()"
      sample_event]
    send_fails_iff [of sample_notifier sample_rfc3339 "client_status 200" None sample_event]
  by (simp add: send_request_Some send_request_None client_status_def)

theorem send_status_204_counterexample:
  "client_status 204 (the (send_request sample_notifier sample_rfc3339 (Some ()) sample_event))
     = Inr \<lparr>StatusCode = 204\<rparr>
   \<and> send sample_notifier sample_rfc3339 (client_status 204) (Some ()) sample_event
       = Some (ReturnedStatus 204)"
  by (simp add: send_def NewRequestWithContext_def client_status_def Let_def)

section \<open>The guard of the division\<close>

lemma newGlobalRateLimit_range:
  assumes "newGlobalRateLimit rate = Inr g0"
  shows "0 \<le> intervalG g0 \<and> intervalG g0 \<le> 60000000000"
proof (cases "1 < rate")
  case True
  have a: "(0::int) \<le> 60000000000 div rate"
    using True by (simp add: pos_imp_zdiv_nonneg_iff)
  have "(60000000000::int) div rate \<le> 60000000000 div 1"
    using True by (intro zdiv_mono2) simp_all
  then have b: "(60000000000::int) div rate \<le> 60000000000"
    by simp
  from assms True have "intervalG g0 = 60000000000 div rate"
    by (auto simp add: newGlobalRateLimit_eq)
  with a b show ?thesis by simp
next
  case False
  with assms have "intervalG g0 = 60000000000"
    by (auto simp add: newGlobalRateLimit_eq)
  then show ?thesis by simp
qed

text \<open>
  C9, as the code has it: for every rate \<open>r \<le> 1\<close>, zero and the negative ones among them,
  the constructors do not divide: the domain interval is exactly 5 minutes and the global
  interval exactly 1 minute. For every integer rate the constructors return a limiter
  and never divide by zero, and no interval is negative. An interval is zero exactly
  when the rate is greater than the base interval in nanoseconds (300000000000 for the
  domain limiter, 60000000000 for the global one), where the division of durations
  truncates to 0. The counterexample is the rate 300000000001.
\<close>

theorem constructor_division_guarded:
  "(r \<le> 1 \<longrightarrow>
      newDomainRateLimit r = Inr \<lparr>lastNotified = Map.empty, interval = 5 * Minute\<rparr>
      \<and> newGlobalRateLimit r = Inr \<lparr>lastSent = zeroTime, intervalG = Minute\<rparr>)
   \<and> newDomainRateLimit r \<noteq> Inl DivideByZero
   \<and> newGlobalRateLimit r \<noteq> Inl DivideByZero
   \<and> (\<exists>d. newDomainRateLimit r = Inr d \<and> 0 \<le> interval d
          \<and> (interval d = 0 \<longleftrightarrow> 5 * Minute < r))
   \<and> (\<exists>g. newGlobalRateLimit r = Inr g \<and> 0 \<le> intervalG g
          \<and> (intervalG g = 0 \<longleftrightarrow> Minute < r))"
proof -
  let ?d = "\<lparr>lastNotified = Map.empty,
             interval = (if 1 < r then 300000000000 div r else 300000000000)\<rparr>"
  let ?g = "\<lparr>lastSent = zeroTime,
             intervalG = (if 1 < r then 60000000000 div r else 60000000000)\<rparr>"
  have d: "newDomainRateLimit r = Inr ?d"
    by (rule newDomainRateLimit_eq)
  have g: "newGlobalRateLimit r = Inr ?g"
    by (rule newGlobalRateLimit_eq)
  have dz: "(interval ?d = 0) = (5 * Minute < r)"
    by (simp add: div_zero_iff Minute_def Second_def)
  have gz: "(intervalG ?g = 0) = (Minute < r)"
    by (simp add: div_zero_iff Minute_def Second_def)
  from newDomainRateLimit_range [OF d] have dn: "0 \<le> interval ?d"
    by blast
  from newGlobalRateLimit_range [OF g] have gn: "0 \<le> intervalG ?g"
    by blast
  have small: "r \<le> 1 \<longrightarrow>
      newDomainRateLimit r = Inr \<lparr>lastNotified = Map.empty, interval = 5 * Minute\<rparr>
      \<and> newGlobalRateLimit r = Inr \<lparr>lastSent = zeroTime, intervalG = Minute\<rparr>"
    by (simp add: newDomainRateLimit_eq newGlobalRateLimit_eq Minute_def Second_def)
  have nd: "newDomainRateLimit r \<noteq> Inl DivideByZero"
    by (simp add: d)
  have ng: "newGlobalRateLimit r \<noteq> Inl DivideByZero"
    by (simp add: g)
  from d dn dz have ed: "\<exists>d. newDomainRateLimit r = Inr d \<and> 0 \<le> interval d
          \<and> (interval d = 0 \<longleftrightarrow> 5 * Minute < r)"
    by blast
  from g gn gz have eg: "\<exists>g. newGlobalRateLimit r = Inr g \<and> 0 \<le> intervalG g
          \<and> (intervalG g = 0 \<longleftrightarrow> Minute < r)"
    by blast
  from small nd ng ed eg show ?thesis
    by blast
qed

theorem constructor_division_guarded_witness:
  "(0::int) \<le> 1 \<and> (- 3::int) \<le> 1
   \<and> newDomainRateLimit 0 = Inr \<lparr>lastNotified = Map.empty, interval = 5 * Minute\<rparr>
   \<and> newGlobalRateLimit 0 = Inr \<lparr>lastSent = zeroTime, intervalG = Minute\<rparr>
   \<and> newDomainRateLimit (- 3) = Inr \<lparr>lastNotified = Map.empty, interval = 5 * Minute\<rparr>
   \<and> newGlobalRateLimit (- 3) = Inr \<lparr>lastSent = zeroTime, intervalG = Minute\<rparr>"
proof -
  have a: "(0::int) \<le> 1" and b: "(- 3::int) \<le> 1"
    by simp_all
  from constructor_division_guarded [of 0] a
    constructor_division_guarded [of "- 3"] b
  show ?thesis
    by blast
qed

theorem zero_interval_counterexample:
  "newDomainRateLimit 300000000001 = Inr \<lparr>lastNotified = Map.empty, interval = 0\<rparr>
   \<and> newGlobalRateLimit 60000000001 = Inr \<lparr>lastSent = zeroTime, intervalG = 0\<rparr>"
  by (simp add: newDomainRateLimit_eq newGlobalRateLimit_eq)

section \<open>The filter columns of the query log\<close>

lemma inserted_filter_columns:
  "inserted ri ips jm h e ''filter_reason'' = Some (sql_int_ptr (filterReason ri e))"
  "inserted ri ips jm h e ''filter_rule'' = Some (sql_string_ptr (filterRule e))"
  "inserted ri ips jm h e ''service_name'' = Some (sql_string_ptr (serviceName e))"
  "inserted ri ips jm h e ''is_filtered'' = Some (SqlBool (IsFiltered (Result e)))"
  by (simp_all add: inserted_def insertSQL_columns_def insertEntry_args_def Let_def)

text \<open>
  C10: for every log entry whose result has \<open>IsFiltered\<close> false, \<open>insertEntry\<close> passes NULL
  for the columns filter_reason, filter_rule and service_name, whatever rules and service
  name the result holds. filter_reason is not NULL exactly when \<open>IsFiltered\<close> is true,
  filter_rule exactly when \<open>IsFiltered\<close> is true and there is a matched rule (the text of
  the first one is stored), service_name exactly when \<open>IsFiltered\<close> is true and the
  service name is not empty. These are the arguments \<open>insertEntry\<close> hands to the database.
\<close>

theorem insertEntry_filter_columns:
  "insertEntry db_Exec ri ips jm h e =
     db_Exec insertSQL_columns (insertEntry_args ri ips jm h e)
   \<and> (\<not> IsFiltered (Result e) \<longrightarrow>
        inserted ri ips jm h e ''filter_reason'' = Some SqlNull
        \<and> inserted ri ips jm h e ''filter_rule'' = Some SqlNull
        \<and> inserted ri ips jm h e ''service_name'' = Some SqlNull)
   \<and> (inserted ri ips jm h e ''filter_reason'' \<noteq> Some SqlNull \<longleftrightarrow> IsFiltered (Result e))
   \<and> (inserted ri ips jm h e ''filter_rule'' \<noteq> Some SqlNull \<longleftrightarrow>
        IsFiltered (Result e) \<and> Rules (Result e) \<noteq> [])
   \<and> (inserted ri ips jm h e ''service_name'' \<noteq> Some SqlNull \<longleftrightarrow>
        IsFiltered (Result e) \<and> ServiceName (Result e) \<noteq> [])
   \<and> (IsFiltered (Result e) \<longrightarrow>
        inserted ri ips jm h e ''filter_reason'' = Some (SqlInt (ri (ReasonR (Result e)))))
   \<and> (IsFiltered (Result e) \<and> Rules (Result e) \<noteq> [] \<longrightarrow>
        inserted ri ips jm h e ''filter_rule''
          = Some (SqlString (Text (hd (Rules (Result e))))))
   \<and> (IsFiltered (Result e) \<and> ServiceName (Result e) \<noteq> [] \<longrightarrow>
        inserted ri ips jm h e ''service_name'' = Some (SqlString (ServiceName (Result e))))"
  by (cases "Rules (Result e)")
    (simp_all add: insertEntry_def inserted_filter_columns filterReason_def filterRule_def
      serviceName_def sql_int_ptr_def sql_string_ptr_def)

theorem insertEntry_filter_columns_witness:
  "\<not> IsFiltered (Result sample_entry)
   \<and> Rules (Result sample_entry) \<noteq> []
   \<and> ServiceName (Result sample_entry) \<noteq> []
   \<and> inserted sample_reason_int sample_ip_String sample_json_Marshal ''host'' sample_entry
        ''filter_reason'' = Some SqlNull
   \<and> inserted sample_reason_int sample_ip_String sample_json_Marshal ''host'' sample_entry
        ''filter_rule'' = Some SqlNull
   \<and> inserted sample_reason_int sample_ip_String sample_json_Marshal ''host'' sample_entry
        ''service_name'' = Some SqlNull
   \<and> IsFiltered (Result (sample_entry\<lparr>Result := (Result sample_entry)\<lparr>IsFiltered := True\<rparr>\<rparr>))
   \<and> inserted sample_reason_int sample_ip_String sample_json_Marshal ''host''
        (sample_entry\<lparr>Result := (Result sample_entry)\<lparr>IsFiltered := True\<rparr>\<rparr>)
        ''filter_reason'' = Some (SqlInt 1)
   \<and> inserted sample_reason_int sample_ip_String sample_json_Marshal ''host''
        (sample_entry\<lparr>Result := (Result sample_entry)\<lparr>IsFiltered := True\<rparr>\<rparr>)
        ''filter_rule'' = Some (SqlString ''@@||a.com^'')
   \<and> inserted sample_reason_int sample_ip_String sample_json_Marshal ''host''
        (sample_entry\<lparr>Result := (Result sample_entry)\<lparr>IsFiltered := True\<rparr>\<rparr>)
        ''service_name'' = Some (SqlString ''svc'')"
proof -
  let ?f = "sample_entry\<lparr>Result := (Result sample_entry)\<lparr>IsFiltered := True\<rparr>\<rparr>"
  have a: "\<not> IsFiltered (Result sample_entry)" and b: "Rules (Result sample_entry) \<noteq> []"
    and c: "ServiceName (Result sample_entry) \<noteq> []"
    by (simp_all add: sample_entry_def)
  have a': "IsFiltered (Result ?f)" and b': "Rules (Result ?f) \<noteq> []"
    and c': "ServiceName (Result ?f) \<noteq> []"
    by (simp_all add: sample_entry_def)
  have v: "sample_reason_int (ReasonR (Result ?f)) = 1"
    "Text (hd (Rules (Result ?f))) = ''@@||a.com^''"
    "ServiceName (Result ?f) = ''svc''"
    by (simp_all add: sample_entry_def sample_reason_int_def)
  note t1 = insertEntry_filter_columns [of "\<lambda>cols args. None" sample_reason_int
      sample_ip_String sample_json_Marshal "''host''" sample_entry]
  note t2 = insertEntry_filter_columns [of "\<lambda>cols args. None" sample_reason_int
      sample_ip_String sample_json_Marshal "''host''" ?f]
  from t1 a have n: "inserted sample_reason_int sample_ip_String sample_json_Marshal ''host''
        sample_entry ''filter_reason'' = Some SqlNull"
    "inserted sample_reason_int sample_ip_String sample_json_Marshal ''host''
        sample_entry ''filter_rule'' = Some SqlNull"
    "inserted sample_reason_int sample_ip_String sample_json_Marshal ''host''
        sample_entry ''service_name'' = Some SqlNull"
    by blast+
  from t2 a' b' c' have "inserted sample_reason_int sample_ip_String sample_json_Marshal ''host''
        ?f ''filter_reason'' = Some (SqlInt (sample_reason_int (ReasonR (Result ?f))))"
    "inserted sample_reason_int sample_ip_String sample_json_Marshal ''host''
        ?f ''filter_rule'' = Some (SqlString (Text (hd (Rules (Result ?f)))))"
    "inserted sample_reason_int sample_ip_String sample_json_Marshal ''host''
        ?f ''service_name'' = Some (SqlString (ServiceName (Result ?f)))"
    by blast+
  then have f: "inserted sample_reason_int sample_ip_String sample_json_Marshal ''host''
        ?f ''filter_reason'' = Some (SqlInt 1)"
    "inserted sample_reason_int sample_ip_String sample_json_Marshal ''host''
        ?f ''filter_rule'' = Some (SqlString ''@@||a.com^'')"
    "inserted sample_reason_int sample_ip_String sample_json_Marshal ''host''
        ?f ''service_name'' = Some (SqlString ''svc'')"
    by (simp_all only: v)
  from a b c a' n f show ?thesis
    by (simp only: simp_thms)
qed

end
